theory Spec2Isabelle
  imports Main
begin

section \<open>Santismo hunt: the progression engine of \<open>src/App.jsx\<close>\<close>

text \<open>
  The model follows \<open>App.jsx\<close> function by function. A JavaScript string is a
  \<^typ>\<open>string\<close> whose characters are read as the code units U+0000 .. U+00FF.
  A value that may be \<open>undefined\<close> is an \<open>option\<close>, and a \<open>TypeError\<close> raised
  by reading a property of \<open>undefined\<close> is the result \<open>None\<close>.
\<close>

subsection \<open>normalize\<close>

text \<open>
  The argument of \<open>normalize\<close> is any of the values the expression \<open>(s || "")\<close>
  is written for: \<open>undefined\<close>, \<open>null\<close> or a string.
\<close>

datatype jsval = JUndefined | JNull | JString string

text \<open>\<open>(s || "").toString()\<close>: a falsy value (\<open>undefined\<close>, \<open>null\<close>, the empty
  string) gives the empty string, any other string is itself.\<close>

fun orEmpty_toString :: "jsval \<Rightarrow> string" where
  "orEmpty_toString JUndefined = ''''"
| "orEmpty_toString JNull = ''''"
| "orEmpty_toString (JString s) = (if s = '''' then '''' else s)"

text \<open>The class \<open>\s\<close> of a JavaScript regular expression, which is also what
  \<open>trim\<close> removes, within U+0000 .. U+00FF: tab, line feed, vertical tab, form feed,
  carriage return, space and the no-break space U+00A0.\<close>

definition is_ws :: "char \<Rightarrow> bool" where
  "is_ws c = (of_char c \<in> {9, 10, 11, 12, 13, 32, 160 :: nat})"

definition trim :: "string \<Rightarrow> string" where
  "trim s = rev (dropWhile is_ws (rev (dropWhile is_ws s)))"

text \<open>\<open>toLowerCase\<close> within U+0000 .. U+00FF: \<open>A-Z\<close> and the capital letters
  U+00C0 .. U+00DE (without the multiplication sign U+00D7) move up by 32.\<close>

definition toLowerCase_char :: "char \<Rightarrow> char" where
  "toLowerCase_char c =
     (let n = (of_char c :: nat)
      in if (65 \<le> n \<and> n \<le> 90) \<or> (192 \<le> n \<and> n \<le> 214) \<or> (216 \<le> n \<and> n \<le> 222)
         then char_of (n + 32) else c)"

definition toLowerCase :: "string \<Rightarrow> string" where
  "toLowerCase s = map toLowerCase_char s"

text \<open>\<open>.replace(/[^a-z0-9\s-]/g, "")\<close> keeps exactly the characters of the class.\<close>

definition in_class :: "char \<Rightarrow> bool" where
  "in_class c =
     (let n = (of_char c :: nat)
      in (97 \<le> n \<and> n \<le> 122) \<or> (48 \<le> n \<and> n \<le> 57) \<or> is_ws c \<or> c = CHR ''-'')"

definition strip_other :: "string \<Rightarrow> string" where
  "strip_other s = filter in_class s"

text \<open>\<open>.replace(/\s+/g, " ")\<close>: every maximal run of whitespace becomes one space.\<close>

function collapse_ws :: "string \<Rightarrow> string" where
  "collapse_ws [] = []"
| "collapse_ws (c # cs) =
     (if is_ws c then CHR '' '' # collapse_ws (dropWhile is_ws cs) else c # collapse_ws cs)"
  by pat_completeness auto
termination
  by (relation "measure length") (auto simp: less_Suc_eq_le length_dropWhile_le)

text \<open>\<open>normalize\<close> of the source; the constant is \<open>normalize_str\<close> because HOL
  has a \<open>normalize\<close> of its own.\<close>

definition normalize_str :: "jsval \<Rightarrow> string" where
  "normalize_str s = collapse_ws (strip_other (toLowerCase (trim (orEmpty_toString s))))"

text \<open>
  A predicate for the proofs about \<open>normalize\<close>: every whitespace character of the
  string is a plain space and no two whitespace characters are adjacent.
\<close>

fun spaced :: "string \<Rightarrow> bool" where
  "spaced [] = True"
| "spaced [c] = (if is_ws c then c = CHR '' '' else True)"
| "spaced (c # d # cs) =
     ((if is_ws c then c = CHR '' '' \<and> \<not> is_ws d else True) \<and> spaced (d # cs))"

subsection \<open>Zones\<close>

text \<open>\<open>ZONES\<close>: the zone ids with their rectangles \<open>(x, y, w, h)\<close>, in source order.\<close>

definition ZONES :: "(string \<times> (int \<times> int \<times> int \<times> int)) list" where
  "ZONES =
   [(''up_corridor'', (52, 22, 86, 20)),
    (''up_bedroom_current'', (16, 10, 56, 28)),
    (''up_guest_bedroom'', (16, 44, 56, 30)),
    (''up_guest_closet'', (76, 48, 36, 18)),
    (''up_master_bedroom'', (116, 42, 66, 34)),
    (''up_master_bath'', (146, 78, 36, 22)),
    (''stairs_transition'', (96, 18, 18, 10)),
    (''entry_spine'', (72, 122, 54, 20)),
    (''study'', (20, 112, 44, 30)),
    (''kitchen'', (84, 148, 66, 36)),
    (''christmas_room_fireplace'', (154, 146, 66, 38)),
    (''christmas_room_sofa'', (154, 188, 66, 28)),
    (''formal_living_empty'', (20, 150, 54, 40)),
    (''down_bath'', (64, 188, 32, 24)),
    (''laundry'', (20, 196, 44, 26)),
    (''back_door'', (110, 188, 38, 18)),
    (''yard_path'', (92, 226, 60, 12)),
    (''shed_final'', (168, 232, 44, 26))]"

text \<open>\<open>zoneGroup\<close>. The argument is \<open>None\<close> for \<open>undefined\<close> or \<open>null\<close>; \<open>!zoneId\<close>
  is also true of the empty string.\<close>

definition zoneGroup :: "string option \<Rightarrow> string" where
  "zoneGroup zoneId =
     (case zoneId of
        None \<Rightarrow> ''unknown''
      | Some z \<Rightarrow>
          (if z = '''' then ''unknown''
           else if take 3 z = ''up_'' \<or> z = ''stairs_transition'' then ''up''
           else if z = ''yard_path'' \<or> z = ''shed_final'' then ''out''
           else ''down''))"

subsection \<open>Narration lines\<close>

text \<open>
  The spoken lines are opaque to the engine. They are held as the bytes of the literal
  in the source file; \<open>rsquo\<close> and \<open>hellip\<close> are the two byte sequences the file has
  where an apostrophe and an ellipsis are meant.
\<close>

definition rsquo :: string where
  "rsquo = [CHR 0xE2, CHR 0x80, CHR 0x9A, CHR 0xC3, CHR 0x84, CHR 0xC3, CHR 0xB4]"

definition hellip :: string where
  "hellip = [CHR 0xE2, CHR 0x80, CHR 0x9A, CHR 0xC3, CHR 0x84, CHR 0xC2, CHR 0xB6]"

text \<open>
  \<open>all[Math.floor(Math.random() * all.length)]\<close>. The random draw is a parameter:
  \<open>rnd n\<close> is the value that \<open>Math.floor(Math.random() * n)\<close> takes in the call, an
  index below \<open>n\<close> for every \<open>n > 0\<close>. The floating-point product itself is not
  modelled.
\<close>

definition pick :: "'a list \<Rightarrow> (nat \<Rightarrow> nat) \<Rightarrow> 'a" where
  "pick xs rnd = xs ! rnd (length xs)"

text \<open>The draws when \<open>Math.random()\<close> returns 0 and when it returns 0.5; both
  products are exact.\<close>

definition draw_zero :: "nat \<Rightarrow> nat" where
  "draw_zero n = 0"

definition draw_half :: "nat \<Rightarrow> nat" where
  "draw_half n = n div 2"

text \<open>The local constant \<open>pool\<close> of \<open>mapRevealLine\<close>.\<close>

definition pool :: "string list" where
  "pool =
   [''You were here'' @ hellip @ '' now you'' @ rsquo @ ''re not.'',
    ''The house remembers your footsteps.'',
    ''Rooms change. So do people.'',
    ''You'' @ rsquo @ ''re getting closer'' @ hellip @ '' I can feel it.'',
    ''Not that room anymore.'']"

text \<open>The local array \<open>directional\<close> of \<open>mapRevealLine\<close>, after its three pushes.\<close>

definition directional :: "string \<Rightarrow> string \<Rightarrow> string list" where
  "directional fromG toG =
     (if fromG = ''up'' \<and> toG = ''down''
      then [''Downstairs now'' @ hellip @ '' good choice.''] else []) @
     (if fromG \<noteq> ''out'' \<and> toG = ''out''
      then [''Outside'' @ hellip @ '' where my laugh travels farther.''] else []) @
     (if toG = ''up'' then [''Back upstairs? Brave.''] else [])"

definition mapRevealLine ::
  "int \<Rightarrow> string option \<Rightarrow> string option \<Rightarrow> (nat \<Rightarrow> nat) \<Rightarrow> string" where
  "mapRevealLine nextStepId fromZone toZone rnd =
     (if nextStepId = 7 then
        ''You'' @ rsquo @ ''ve finished upstairs'' @ hellip @ '' good. Let'' @ rsquo @
        ''s see what waits below.''
      else if nextStepId = 10 then
        ''Ah'' @ hellip @ '' warmth. Fire is comforting, isn'' @ rsquo @
        ''t it? It hides things so well.''
      else if nextStepId = 16 then
        ''You'' @ rsquo @ ''re leaving the house now'' @ hellip @ '' don'' @ rsquo @
        ''t worry. It'' @ rsquo @ ''s still watching.''
      else if nextStepId = 17 then
        ''I didn'' @ rsquo @ ''t hide this far away'' @ hellip @ '' I hid it on purpose.''
      else if nextStepId = 18 then
        ''You made it. The house accepts you'' @ hellip @ '' and so do I.''
      else
        (let fromG = zoneGroup fromZone;
             toG = zoneGroup toZone;
             dir = directional fromG toG;
             all = (if length dir \<noteq> 0 then dir @ pool else pool)
         in pick all rnd))"

subsection \<open>The hunt definition\<close>

text \<open>A step of \<open>DEFAULT_STEPS\<close> with the fields the engine reads (\<open>id\<close> is
  \<open>step_id\<close>); \<open>title\<close>, \<open>riddle\<close> and \<open>locationHint\<close> are only rendered.\<close>

record hunt_step =
  step_id :: int
  zone :: string
  answer :: string
  santismoLine :: string

definition DEFAULT_STEPS :: "hunt_step list" where
  "DEFAULT_STEPS =
   [
    \<lparr>step_id = 1, zone = ''up_corridor'', answer = ''crossroads'',
     santismoLine =
        ''Ho'' @ hellip @ '' ho'' @ hellip @
        '' holy matrimony. Type the code word. The house is listening.''\<rparr>,
    \<lparr>step_id = 2, zone = ''up_bedroom_current'', answer = ''shared dreams'',
     santismoLine =
        ''New home. Same bed. Different fate. Code word'' @ hellip @ '' now.''\<rparr>,
    \<lparr>step_id = 3, zone = ''up_guest_bedroom'', answer = ''spare soul'',
     santismoLine =
        ''Ah, the guest room. Where friends sleep'' @ hellip @ '' briefly. Code word.''\<rparr>,
    \<lparr>step_id = 4, zone = ''up_guest_closet'', answer = ''hidden threads'',
     santismoLine =
        ''I ate three socks to get here. Don'' @ rsquo @ ''t ask which three. Code word.''\<rparr>,
    \<lparr>step_id = 5, zone = ''up_master_bedroom'', answer = ''unwritten'',
     santismoLine =
        ''An empty room is perfect for haunting'' @ hellip @
        '' and for beginnings. Code word.''\<rparr>,
    \<lparr>step_id = 6, zone = ''up_master_bath'', answer = ''clean sins'',
     santismoLine =
        ''I whisper into mirrors. They whisper back. Code word.''\<rparr>,
    \<lparr>step_id = 7, zone = ''stairs_transition'', answer = ''threshold'',
     santismoLine =
        ''Gravity pulls. So do I. Code word.''\<rparr>,
    \<lparr>step_id = 8, zone = ''study'', answer = ''ink pact'',
     santismoLine =
        ''Beware'' @ hellip @ '' the stapler. Code word.''\<rparr>,
    \<lparr>step_id = 9, zone = ''kitchen'', answer = ''midnight bite'',
     santismoLine =
        ''I can smell cookies through walls. Code word.''\<rparr>,
    \<lparr>step_id = 10, zone = ''christmas_room_fireplace'', answer = ''ember vow'',
     santismoLine =
        ''My laugh echoes in chimneys. Code word.''\<rparr>,
    \<lparr>step_id = 11, zone = ''christmas_room_sofa'', answer = ''soft trap'',
     santismoLine =
        ''If you hear creaking'' @ hellip @ '' that'' @ rsquo @
        ''s the sofa. Not me. Probably. Code word.''\<rparr>,
    \<lparr>step_id = 12, zone = ''formal_living_empty'', answer = ''echo chamber'',
     santismoLine =
        ''Empty rooms are my favorite. More space for dramatic entrances. Code word.''\<rparr>,
    \<lparr>step_id = 13, zone = ''down_bath'', answer = ''quick confession'',
     santismoLine =
        ''Wash your hands. Wash your soul. Code word.''\<rparr>,
    \<lparr>step_id = 14, zone = ''laundry'', answer = ''spin cycle'',
     santismoLine =
        ''The dryer steals socks for my army. Code word.''\<rparr>,
    \<lparr>step_id = 15, zone = ''back_door'', answer = ''last warmth'',
     santismoLine =
        ''Outside'' @ hellip @ '' I become more powerful. Code word.''\<rparr>,
    \<lparr>step_id = 16, zone = ''yard_path'', answer = ''frozen ground'',
     santismoLine =
        ''Your breath is visible now. Good. Code word.''\<rparr>,
    \<lparr>step_id = 17, zone = ''shed_final'', answer = ''final knock'',
     santismoLine =
        ''I'' @ rsquo @ ''m knocking from the inside. Just kidding. Mostly. Code word.''\<rparr>,
    \<lparr>step_id = 18, zone = ''shed_final'', answer = ''homebound'',
     santismoLine =
        ''Merry Christmas'' @ hellip @ '' and congratulations. I'' @ rsquo @
        ''ll be watching. Always.''\<rparr>]"

text \<open>\<open>xs[i]\<close> for an integer \<open>i\<close>: \<open>undefined\<close> outside the array.\<close>

definition js_index :: "'a list \<Rightarrow> int \<Rightarrow> 'a option" where
  "js_index xs i = (if 0 \<le> i \<and> i < int (length xs) then Some (xs ! nat i) else None)"

text \<open>\<open>xs.slice(0, e)\<close> for an integer \<open>e\<close>: a negative end counts from the end of
  the array.\<close>

definition js_slice0 :: "'a list \<Rightarrow> int \<Rightarrow> 'a list" where
  "js_slice0 xs e =
     (let n = int (length xs);
          k = (if e < 0 then max (n + e) 0 else min e n)
      in take (nat k) xs)"

subsection \<open>Component state, timers and effects\<close>

text \<open>\<open>saved\<close> is the record kept in local storage.\<close>

record saved_t =
  stepIndex :: int
  unlockedAudio :: bool

text \<open>
  A pending \<open>setTimeout\<close> callback: the step advance of \<open>onSubmit\<close> (3800 ms), the end
  of the shake (450 ms), and the auto-dismiss of \<open>HauntedMapOverlay\<close> (3600 ms). Time
  is abstracted: a pending timer may fire at any later moment.
\<close>

datatype timer = AdvanceStep int | ClearShake | CloseMap

text \<open>A call of \<open>speak\<close> with its text.\<close>

datatype effect = Speak string

record state =
  saved :: saved_t
  answerInput :: string
  shake :: bool
  showHint :: bool
  mapOpen :: bool
  mapZone :: "string option"
  mapVisited :: "string list"
  timers :: "timer list"

text \<open>The state after mount, with \<open>saved\<close> as read from local storage.\<close>

definition initial_state :: "saved_t \<Rightarrow> state" where
  "initial_state sv =
     \<lparr>saved = sv, answerInput = '''', shake = False, showHint = False, mapOpen = False,
      mapZone = None, mapVisited = [], timers = []\<rparr>"

text \<open>
  The effect of \<open>HauntedMapOverlay\<close>, run after a render: its cleanup clears the
  timer it had set (\<open>clearTimeout(t)\<close>), and it sets a new one only while \<open>open\<close>.
\<close>

definition overlay_effect :: "state \<Rightarrow> state" where
  "overlay_effect st =
     st\<lparr>timers := filter (\<lambda>t. t \<noteq> CloseMap) (timers st) @
                    (if mapOpen st then [CloseMap] else [])\<rparr>"

text \<open>\<open>const step = steps[Math.min(saved.stepIndex, steps.length - 1)]\<close> and
  \<open>isLast\<close>.\<close>

definition step :: "hunt_step list \<Rightarrow> state \<Rightarrow> hunt_step option" where
  "step steps st = js_index steps (min (stepIndex (saved st)) (int (length steps) - 1))"

definition isLast :: "hunt_step list \<Rightarrow> state \<Rightarrow> bool" where
  "isLast steps st = (stepIndex (saved st) \<ge> int (length steps) - 1)"

text \<open>The local array \<open>variants\<close> of \<open>whisper\<close>.\<close>

definition variants :: "hunt_step \<Rightarrow> string list" where
  "variants s =
     [santismoLine s,
      ''I can hear the wrapping paper breathe.'',
      ''Type the code word. The house is listening.'',
      ''If you cheat, I'' @ rsquo @ ''ll replace your gift with socks.'']"

text \<open>\<open>whisper\<close> changes no state; its result is the calls of \<open>speak\<close> it makes.\<close>

definition whisper ::
  "hunt_step list \<Rightarrow> (nat \<Rightarrow> nat) \<Rightarrow> state \<Rightarrow> effect list option" where
  "whisper steps rnd st =
     (if \<not> unlockedAudio (saved st) then Some []
      else case step steps st of
             None \<Rightarrow> None
           | Some s \<Rightarrow> Some [Speak (pick (variants s) rnd)])"

definition showMapForNextStep ::
  "hunt_step list \<Rightarrow> (nat \<Rightarrow> nat) \<Rightarrow> int \<Rightarrow> state \<Rightarrow> (state \<times> effect list) option" where
  "showMapForNextStep steps rnd nextIndex st =
     (let n = int (length steps);
          next = js_index steps (min nextIndex (n - 1));
          current = js_index steps (min (nextIndex - 1) (n - 1));
          visitedZones =
            filter (\<lambda>z. z \<noteq> '''') (map zone (js_slice0 steps (min nextIndex n)))
      in case next of
           None \<Rightarrow> None
         | Some nx \<Rightarrow>
             Some (st\<lparr>mapVisited := visitedZones, mapZone := Some (zone nx), mapOpen := True\<rparr>,
                   if unlockedAudio (saved st)
                   then [Speak (mapRevealLine (step_id nx) (map_option zone current)
                                  (Some (zone nx)) rnd)]
                   else []))"

text \<open>\<open>onSubmit\<close>. The text typed is \<open>answerInput\<close>; \<open>rnd\<close> is the random draw of
  the one narration line the call may choose.\<close>

definition onSubmit ::
  "hunt_step list \<Rightarrow> (nat \<Rightarrow> nat) \<Rightarrow> state \<Rightarrow> (state \<times> effect list) option" where
  "onSubmit steps rnd st =
     (if isLast steps st then map_option (Pair st) (whisper steps rnd st)
      else case step steps st of
             None \<Rightarrow> None
           | Some s \<Rightarrow>
               (let expected = normalize_str (JString (answer s));
                    got = normalize_str (JString (answerInput st))
                in if got = expected then
                     (let nextIndex = min (stepIndex (saved st) + 1) (int (length steps) - 1)
                      in case showMapForNextStep steps rnd nextIndex (st\<lparr>answerInput := ''''\<rparr>) of
                           None \<Rightarrow> None
                         | Some (st', effs) \<Rightarrow>
                             Some (overlay_effect
                                     (st'\<lparr>timers := timers st' @ [AdvanceStep nextIndex]\<rparr>),
                                   effs))
                   else
                     Some (overlay_effect (st\<lparr>shake := True, timers := timers st @ [ClearShake]\<rparr>),
                           if unlockedAudio (saved st) then [Speak ''Wrong. Try again...'']
                           else [])))"

text \<open>\<open>reset\<close>. \<open>confirm\<close> is the answer of \<open>window.confirm\<close>, \<open>None\<close> where there
  is no \<open>window\<close>.\<close>

definition reset :: "bool option \<Rightarrow> state \<Rightarrow> state" where
  "reset confirm st =
     (if confirm = Some False then st
      else overlay_effect
             (st\<lparr>saved := \<lparr>stepIndex = 0, unlockedAudio = unlockedAudio (saved st)\<rparr>,
                 answerInput := '''', showHint := False, mapOpen := False\<rparr>))"

definition jumpTo :: "hunt_step list \<Rightarrow> int \<Rightarrow> state \<Rightarrow> state" where
  "jumpTo steps idx st =
     overlay_effect
       (st\<lparr>saved := (saved st)\<lparr>stepIndex := max 0 (min idx (int (length steps) - 1))\<rparr>,
           answerInput := '''', showHint := False, mapOpen := False\<rparr>)"

text \<open>The callback of a timer, as the \<open>setTimeout\<close> that set it gives it.\<close>

fun callback :: "timer \<Rightarrow> state \<Rightarrow> state" where
  "callback (AdvanceStep nextIndex) st = st\<lparr>saved := (saved st)\<lparr>stepIndex := nextIndex\<rparr>\<rparr>"
| "callback ClearShake st = st\<lparr>shake := False\<rparr>"
| "callback CloseMap st = st\<lparr>mapOpen := False\<rparr>"

text \<open>A pending timer fires: it leaves the pending list and its callback runs.
  A timer that is not pending cannot fire.\<close>

definition fire :: "timer \<Rightarrow> state \<Rightarrow> state option" where
  "fire t st =
     (if t \<in> set (timers st)
      then Some (overlay_effect (callback t (st\<lparr>timers := remove1 t (timers st)\<rparr>)))
      else None)"

subsection \<open>Concrete states used below\<close>

text \<open>A fresh session on the first step with \<open>crossroads\<close> typed, narration locked.\<close>

definition st_first :: state where
  "st_first =
     (initial_state \<lparr>stepIndex = 0, unlockedAudio = False\<rparr>)\<lparr>answerInput := ''crossroads''\<rparr>"

text \<open>A session on the last step of \<open>DEFAULT_STEPS\<close> with a wrong word typed,
  narration unlocked.\<close>

definition st_end :: state where
  "st_end =
     (initial_state \<lparr>stepIndex = 17, unlockedAudio = True\<rparr>)\<lparr>answerInput := ''wrong''\<rparr>"

text \<open>A session in the middle of the hunt.\<close>

definition st_mid :: state where
  "st_mid = initial_state \<lparr>stepIndex = 5, unlockedAudio = True\<rparr>"

text \<open>A stored index left over from a longer hunt.\<close>

definition st_stale :: state where
  "st_stale = initial_state \<lparr>stepIndex = 999, unlockedAudio = False\<rparr>"

section \<open>Properties\<close>

subsection \<open>Choosing a line\<close>

lemma pick_in_set: "rnd (length xs) < length xs \<Longrightarrow> pick xs rnd \<in> set xs"
  by (simp add: pick_def)

lemma mapRevealLine_general:
  "nextStepId \<notin> {7, 10, 16, 17, 18} \<Longrightarrow>
   mapRevealLine nextStepId fromZone toZone rnd =
     pick (directional (zoneGroup fromZone) (zoneGroup toZone) @ pool) rnd"
  by (auto simp: mapRevealLine_def Let_def)

subsection \<open>Indexing\<close>

lemma js_slice0_take:
  "0 \<le> e \<Longrightarrow> e \<le> int (length xs) \<Longrightarrow> js_slice0 xs e = take (nat e) xs"
  by (simp add: js_slice0_def Let_def)

lemma step_defined:
  assumes "steps \<noteq> []" "0 \<le> stepIndex (saved st)"
  shows "step steps st =
         Some (steps ! nat (min (stepIndex (saved st)) (int (length steps) - 1)))"
proof -
  have "0 < int (length steps)" using assms(1) by (cases steps) simp_all
  then show ?thesis using assms(2) by (simp add: step_def js_index_def)
qed

lemma zoneGroup_unknown_iff:
  "zoneGroup zoneId = ''unknown'' \<longleftrightarrow> zoneId = None \<or> zoneId = Some ''''"
  by (auto simp: zoneGroup_def split: option.splits)

lemma ZONES_keys_nonempty: "z \<in> fst ` set ZONES \<Longrightarrow> z \<noteq> ''''"
  by (auto simp: ZONES_def)

lemma zoneGroup_nonempty:
  "z \<noteq> '''' \<Longrightarrow> zoneGroup (Some z) \<in> {''up'', ''down'', ''out''}"
  by (simp add: zoneGroup_def)

lemma zoneGroup_outside_ZONES:
  "z \<notin> fst ` set ZONES \<Longrightarrow> z \<noteq> '''' \<Longrightarrow>
   zoneGroup (Some z) = (if take 3 z = ''up_'' then ''up'' else ''down'')"
  by (auto simp: zoneGroup_def ZONES_def)

subsection \<open>The stages of normalize\<close>

lemma in_class_lower: "in_class c \<Longrightarrow> toLowerCase_char c = c"
  by (auto simp: in_class_def toLowerCase_char_def is_ws_def Let_def)

lemma is_ws_space: "is_ws (CHR '' '')"
  by (simp add: is_ws_def)

lemma in_class_space: "in_class (CHR '' '')"
  by (simp add: in_class_def is_ws_def)

lemma collapse_ws_set: "set (collapse_ws xs) \<subseteq> insert (CHR '' '') (set xs)"
proof (induction xs rule: collapse_ws.induct)
  case 1
  show ?case by simp
next
  case (2 c cs)
  show ?case
  proof (cases "is_ws c")
    case True
    have "set (dropWhile is_ws cs) \<subseteq> set cs" by (rule set_dropWhileD[THEN subsetI])
    with 2(1)[OF True] True show ?thesis by auto
  next
    case False
    with 2(2)[OF False] show ?thesis by auto
  qed
qed

lemma collapse_ws_hd:
  "xs = [] \<or> \<not> is_ws (hd xs) \<Longrightarrow> collapse_ws xs = [] \<or> \<not> is_ws (hd (collapse_ws xs))"
  by (cases xs) auto

lemma dropWhile_hd: "dropWhile P xs = [] \<or> \<not> P (hd (dropWhile P xs))"
  by (induction xs) auto

lemma spaced_Cons:
  "spaced (c # cs) \<longleftrightarrow>
   spaced cs \<and> (if is_ws c then c = CHR '' '' \<and> (cs = [] \<or> \<not> is_ws (hd cs)) else True)"
  by (cases cs) auto

lemma spaced_snoc:
  "spaced (xs @ [c]) \<longleftrightarrow>
   spaced xs \<and> (if is_ws c then c = CHR '' '' \<and> (xs = [] \<or> \<not> is_ws (last xs)) else True)"
proof (induction xs rule: spaced.induct)
  case 1
  show ?case by simp
next
  case (2 d)
  show ?case by (auto split: if_splits)
next
  case (3 d e cs)
  then show ?case by (auto split: if_splits)
qed

text \<open>The result of the last stage is \<open>spaced\<close>, and the last stage leaves a
  \<open>spaced\<close> string as it is.\<close>

lemma spaced_collapse_ws: "spaced (collapse_ws xs)"
proof (induction xs rule: collapse_ws.induct)
  case 1
  show ?case by simp
next
  case (2 c cs)
  show ?case
  proof (cases "is_ws c")
    case True
    from collapse_ws_hd[OF dropWhile_hd[of is_ws cs]] 2(1)[OF True] True
    show ?thesis by (simp add: spaced_Cons is_ws_space)
  next
    case False
    with 2(2)[OF False] show ?thesis by (simp add: spaced_Cons)
  qed
qed

lemma spaced_fixed: "spaced ys \<Longrightarrow> collapse_ws ys = ys"
proof (induction ys rule: spaced.induct)
  case 1
  show ?case by simp
next
  case (2 c)
  then show ?case by (auto split: if_splits)
next
  case (3 c d cs)
  then show ?case by (auto split: if_splits)
qed

lemma spaced_dropWhile: "spaced ys \<Longrightarrow> spaced (dropWhile P ys)"
  by (induction ys) (auto simp: spaced_Cons)

lemma spaced_rev: "spaced ys \<Longrightarrow> spaced (rev ys)"
proof (induction ys)
  case Nil
  show ?case by simp
next
  case (Cons c cs)
  then show ?case by (auto simp: spaced_Cons spaced_snoc last_rev split: if_splits)
qed

lemma spaced_trim: "spaced ys \<Longrightarrow> spaced (trim ys)"
  unfolding trim_def by (intro spaced_rev spaced_dropWhile)

lemma set_trim: "set (trim ys) \<subseteq> set ys"
  unfolding trim_def by (auto dest!: set_dropWhileD)

lemma normalize_str_in_class:
  assumes "c \<in> set (normalize_str s)"
  shows "in_class c"
proof -
  from assms
  have "c \<in> insert (CHR '' '') (set (strip_other (toLowerCase (trim (orEmpty_toString s)))))"
    unfolding normalize_str_def using collapse_ws_set by blast
  then show ?thesis by (auto simp: strip_other_def in_class_space)
qed

text \<open>
  What a second application does: it trims the result of the first and changes
  nothing else. So \<open>normalize\<close> is idempotent on exactly the inputs whose result has
  no space at either end.
\<close>

lemma normalize_str_twice: "normalize_str (JString (normalize_str s)) = trim (normalize_str s)"
proof -
  let ?y = "normalize_str s"
  have cls: "\<forall>c \<in> set (trim ?y). in_class c"
    using set_trim normalize_str_in_class by blast
  have a: "orEmpty_toString (JString ?y) = ?y" by simp
  have b: "toLowerCase (trim ?y) = trim ?y"
    unfolding toLowerCase_def using cls by (simp add: map_idI in_class_lower)
  have c: "strip_other (trim ?y) = trim ?y"
    unfolding strip_other_def using cls by simp
  have "spaced ?y" unfolding normalize_str_def by (rule spaced_collapse_ws)
  then have d: "collapse_ws (trim ?y) = trim ?y" by (intro spaced_fixed spaced_trim)
  show ?thesis
    unfolding normalize_str_def[of "JString ?y"] a b c d ..
qed

text \<open>Case does not matter to \<open>normalize\<close>.\<close>

lemma is_ws_lower: "is_ws (toLowerCase_char c) = is_ws c"
  by (auto simp: toLowerCase_char_def is_ws_def Let_def)

lemma lower_lower: "toLowerCase_char (toLowerCase_char c) = toLowerCase_char c"
  by (auto simp: toLowerCase_char_def Let_def)

lemma dropWhile_lower:
  "dropWhile is_ws (map toLowerCase_char s) = map toLowerCase_char (dropWhile is_ws s)"
  by (induction s) (auto simp: is_ws_lower)

lemma trim_lower: "trim (toLowerCase s) = toLowerCase (trim s)"
  by (simp add: trim_def toLowerCase_def dropWhile_lower rev_map)

lemma toLowerCase_twice: "toLowerCase (toLowerCase s) = toLowerCase s"
  by (induction s) (simp_all add: toLowerCase_def lower_lower)

lemma normalize_str_case_insensitive:
  "normalize_str (JString (toLowerCase s)) = normalize_str (JString s)"
proof -
  have "orEmpty_toString (JString (toLowerCase s)) = toLowerCase s" by simp
  moreover have "orEmpty_toString (JString s) = s" by simp
  ultimately show ?thesis
    by (simp only: normalize_str_def trim_lower toLowerCase_twice)
qed

subsection \<open>Pending timers\<close>

text \<open>\<open>reset\<close> and \<open>jumpTo\<close> clear the overlay's auto-dismiss and no other timer: a
  pending step advance is still pending afterwards.\<close>

lemma overlay_effect_keeps_AdvanceStep:
  "AdvanceStep n \<in> set (timers (overlay_effect st)) \<longleftrightarrow> AdvanceStep n \<in> set (timers st)"
  by (simp add: overlay_effect_def)

lemma reset_keeps_AdvanceStep:
  "AdvanceStep n \<in> set (timers (reset confirm st)) \<longleftrightarrow> AdvanceStep n \<in> set (timers st)"
  by (simp add: reset_def overlay_effect_keeps_AdvanceStep)

lemma jumpTo_keeps_AdvanceStep:
  "AdvanceStep n \<in> set (timers (jumpTo steps k st)) \<longleftrightarrow> AdvanceStep n \<in> set (timers st)"
  by (simp add: jumpTo_def overlay_effect_keeps_AdvanceStep)

lemma reset_clears_CloseMap: "CloseMap \<notin> set (timers (reset (Some True) st))"
  by (simp add: reset_def overlay_effect_def)

lemma fire_AdvanceStep:
  "AdvanceStep n \<in> set (timers st) \<Longrightarrow>
   map_option (stepIndex \<circ> saved) (fire (AdvanceStep n) st) = Some n"
  by (simp add: fire_def overlay_effect_def)

section \<open>The claims\<close>

subsection \<open>C1: the visited list of a reveal\<close>

text \<open>
  C1, as amended. On a correct answer at a step \<open>i\<close> that is not the last, \<open>onSubmit\<close>
  opens the map with \<open>mapVisited\<close> equal to the non-empty zones of the steps \<open>0 .. i\<close>
  in step order: the list ends with the zone of the step just solved and is not
  extended by the zone of step \<open>i + 1\<close>. The destination is reported apart, as
  \<open>mapZone\<close>.
\<close>

theorem onSubmit_reveal_visited:
  assumes i: "0 \<le> stepIndex (saved st)" "stepIndex (saved st) < int (length steps) - 1"
    and ok: "normalize_str (JString (answerInput st)) =
             normalize_str (JString (answer (steps ! nat (stepIndex (saved st)))))"
  shows "\<exists>st' effs. onSubmit steps rnd st = Some (st', effs) \<and>
           mapVisited st' =
             filter (\<lambda>z. z \<noteq> '''') (map zone (take (nat (stepIndex (saved st)) + 1) steps)) \<and>
           mapZone st' = Some (zone (steps ! (nat (stepIndex (saved st)) + 1))) \<and>
           mapOpen st'"
proof -
  let ?i = "stepIndex (saved st)"
  let ?n = "int (length steps)"
  have nl: "\<not> isLast steps st" using i by (simp add: isLast_def)
  have s: "step steps st = Some (steps ! nat ?i)"
    using i by (simp add: step_def js_index_def)
  have m: "min (?i + 1) (?n - 1) = ?i + 1" using i by simp
  have nx: "js_index steps (min (?i + 1) (?n - 1)) = Some (steps ! (nat ?i + 1))"
    using i by (simp add: js_index_def nat_add_distrib)
  have sl: "js_slice0 steps (min (?i + 1) ?n) = take (nat ?i + 1) steps"
    using i by (simp add: js_slice0_take nat_add_distrib)
  show ?thesis
    using nl s ok m nx sl
    by (simp add: onSubmit_def showMapForNextStep_def overlay_effect_def Let_def)
qed

text \<open>The theorem at the first step of \<open>DEFAULT_STEPS\<close>.\<close>

theorem onSubmit_reveal_visited_witness:
  "map_option (mapVisited \<circ> fst) (onSubmit DEFAULT_STEPS draw_zero st_first) = Some [''up_corridor''] \<and>
   map_option (mapZone \<circ> fst) (onSubmit DEFAULT_STEPS draw_zero st_first) =
     Some (Some ''up_bedroom_current'')"
proof -
  have a: "normalize_str (JString (answerInput st_first)) =
           normalize_str (JString (answer (DEFAULT_STEPS ! nat (stepIndex (saved st_first)))))"
    by (simp add: st_first_def initial_state_def DEFAULT_STEPS_def)
  have b: "0 \<le> stepIndex (saved st_first)"
    "stepIndex (saved st_first) < int (length DEFAULT_STEPS) - 1"
    by (simp_all add: st_first_def initial_state_def DEFAULT_STEPS_def)
  from onSubmit_reveal_visited[OF b a, of draw_zero] obtain st' effs where
    "onSubmit DEFAULT_STEPS draw_zero st_first = Some (st', effs)"
    "mapVisited st' =
       filter (\<lambda>z. z \<noteq> '''')
         (map zone (take (nat (stepIndex (saved st_first)) + 1) DEFAULT_STEPS))"
    "mapZone st' = Some (zone (DEFAULT_STEPS ! (nat (stepIndex (saved st_first)) + 1)))"
    by blast
  then show ?thesis
    by (simp add: st_first_def initial_state_def DEFAULT_STEPS_def)
qed

text \<open>The claim as stated fails at the transition from step 0 (\<open>up_corridor\<close>) to
  step 1 (\<open>up_bedroom_current\<close>): the visited list is \<open>[up_corridor]\<close>.\<close>

theorem reveal_visited_counterexample:
  "map_option (mapVisited \<circ> fst) (onSubmit DEFAULT_STEPS draw_zero st_first) = Some [''up_corridor''] \<and>
   zone (DEFAULT_STEPS ! 0) = ''up_corridor'' \<and>
   zone (DEFAULT_STEPS ! 1) = ''up_bedroom_current'' \<and>
   ''up_bedroom_current'' \<notin> set [''up_corridor'']"
  by code_simp

subsection \<open>C2: direction-aware lines\<close>

text \<open>
  C2, as amended. For a step id that is not one of the fixed beats 7, 10, 16, 17, 18,
  \<open>mapRevealLine\<close> returns the entry, at the drawn index, of the array that consists
  of the direction-aware candidates followed by the generic pool: a drawn index below
  the number of candidates gives that candidate, and the drawn index
  \<open>number of candidates + j\<close> gives line \<open>j\<close> of the generic pool. The candidates are
  put in front of the pool, they do not replace it.
\<close>

theorem mapRevealLine_outputs:
  assumes "nextStepId \<notin> {7, 10, 16, 17, 18}"
  shows "mapRevealLine nextStepId fromZone toZone rnd =
           (directional (zoneGroup fromZone) (zoneGroup toZone) @ pool) !
             rnd (length (directional (zoneGroup fromZone) (zoneGroup toZone) @ pool)) \<and>
         (i < length (directional (zoneGroup fromZone) (zoneGroup toZone)) \<and>
          rnd (length (directional (zoneGroup fromZone) (zoneGroup toZone) @ pool)) = i \<longrightarrow>
            mapRevealLine nextStepId fromZone toZone rnd =
              directional (zoneGroup fromZone) (zoneGroup toZone) ! i) \<and>
         (j < length pool \<and>
          rnd (length (directional (zoneGroup fromZone) (zoneGroup toZone) @ pool)) =
            length (directional (zoneGroup fromZone) (zoneGroup toZone)) + j \<longrightarrow>
            mapRevealLine nextStepId fromZone toZone rnd = pool ! j)"
proof -
  let ?dir = "directional (zoneGroup fromZone) (zoneGroup toZone)"
  have e: "mapRevealLine nextStepId fromZone toZone rnd =
           (?dir @ pool) ! rnd (length (?dir @ pool))"
    using mapRevealLine_general[OF assms] by (simp add: pick_def)
  have a: "i < length ?dir \<Longrightarrow> (?dir @ pool) ! i = ?dir ! i"
    by (simp add: nth_append)
  have b: "(?dir @ pool) ! (length ?dir + j) = pool ! j"
    by (simp add: nth_append)
  show ?thesis
    using e a b by metis
qed

text \<open>The theorem at the transition from the stairs to the study (step id 8): the
  array has the one candidate and the five lines of the pool; the draw 0 gives the
  candidate and the draw 3 gives line 2 of the pool.\<close>

theorem mapRevealLine_outputs_witness:
  "mapRevealLine 8 (Some ''stairs_transition'') (Some ''study'') draw_zero =
     ''Downstairs now'' @ hellip @ '' good choice.'' \<and>
   mapRevealLine 8 (Some ''stairs_transition'') (Some ''study'') draw_half = pool ! 2"
proof -
  have d: "directional (zoneGroup (Some ''stairs_transition'')) (zoneGroup (Some ''study'')) =
           [''Downstairs now'' @ hellip @ '' good choice.'']"
    by (simp add: zoneGroup_def directional_def)
  have z: "mapRevealLine 8 (Some ''stairs_transition'') (Some ''study'') draw_zero =
           ''Downstairs now'' @ hellip @ '' good choice.''"
    using mapRevealLine_outputs[where nextStepId = 8 and fromZone = "Some ''stairs_transition''"
        and toZone = "Some ''study''" and rnd = draw_zero and i = 0 and j = 0]
    by (simp add: d draw_zero_def)
  have h: "mapRevealLine 8 (Some ''stairs_transition'') (Some ''study'') draw_half = pool ! 2"
    using mapRevealLine_outputs[where nextStepId = 8 and fromZone = "Some ''stairs_transition''"
        and toZone = "Some ''study''" and rnd = draw_half and i = 0 and j = 2]
    by (simp add: d draw_half_def pool_def)
  from z h show ?thesis by simp
qed

text \<open>The claim as stated fails there: one direction-aware candidate exists, and the
  draw of \<open>Math.random() = 0.5\<close> selects a line of the generic pool.\<close>

theorem mapRevealLine_generic_counterexample:
  "directional (zoneGroup (Some ''stairs_transition'')) (zoneGroup (Some ''study'')) =
     [''Downstairs now'' @ hellip @ '' good choice.''] \<and>
   mapRevealLine 8 (Some ''stairs_transition'') (Some ''study'') draw_half =
     ''Rooms change. So do people.'' \<and>
   ''Rooms change. So do people.'' \<in> set pool \<and>
   ''Rooms change. So do people.'' \<notin>
     set (directional (zoneGroup (Some ''stairs_transition'')) (zoneGroup (Some ''study'')))"
  by (simp add: mapRevealLine_def zoneGroup_def directional_def pool_def pick_def hellip_def
      draw_half_def)

subsection \<open>C3: the example of normalize\<close>

text \<open>
  C3, as amended. In the example \<open>normalize\<close> ignores the case and the exclamation
  mark but keeps the hyphen: \<open>normalize("Cross-Roads!")\<close> is \<open>"cross-roads"\<close>, which is
  \<open>normalize("cross-roads")\<close>, and \<open>normalize("CrossRoads!")\<close> equals
  \<open>normalize("crossroads")\<close>. For every string \<open>s\<close>, \<open>normalize(s.toLowerCase())\<close>
  equals \<open>normalize(s)\<close>.
\<close>

theorem normalize_example:
  "normalize_str (JString ''Cross-Roads!'') = ''cross-roads'' \<and>
   normalize_str (JString ''cross-roads'') = ''cross-roads'' \<and>
   normalize_str (JString ''CrossRoads!'') = normalize_str (JString ''crossroads'') \<and>
   normalize_str (JString (toLowerCase s)) = normalize_str (JString s)"
proof -
  have "normalize_str (JString ''Cross-Roads!'') = ''cross-roads''" by code_simp
  moreover have "normalize_str (JString ''cross-roads'') = ''cross-roads''" by code_simp
  moreover have "normalize_str (JString ''CrossRoads!'') = normalize_str (JString ''crossroads'')"
    by code_simp
  ultimately show ?thesis using normalize_str_case_insensitive[of s] by simp
qed

text \<open>The claim as stated fails: the hyphen survives.\<close>

theorem normalize_hyphen_counterexample:
  "normalize_str (JString ''Cross-Roads!'') \<noteq> normalize_str (JString ''crossroads'')"
  by code_simp

subsection \<open>C4: normalize applied twice\<close>

text \<open>
  C4. \<open>normalize\<close> trims before it strips, so a space that follows a stripped leading
  character stays in front of the result: on \<open>"! a"\<close> it returns \<open>" a"\<close>, and a second
  application returns \<open>"a"\<close>. The function is not idempotent on this input.
\<close>

theorem normalize_not_idempotent:
  "normalize_str (JString ''! a'') = '' a'' \<and>
   normalize_str (JString (normalize_str (JString ''! a''))) = ''a'' \<and>
   normalize_str (JString (normalize_str (JString ''! a''))) \<noteq> normalize_str (JString ''! a'')"
  by code_simp

subsection \<open>C5: timers across reset and jumpTo\<close>

text \<open>
  C5. After a correct answer on the first step the pending timers are the step
  advance and the overlay's auto-dismiss. \<open>reset\<close> and \<open>jumpTo\<close> close the overlay,
  which clears the auto-dismiss, but the step advance stays pending; when it fires
  after the reset, or after a jump to step 5, the step index becomes 1.
\<close>

theorem reset_keeps_advance_timer:
  "map_option (timers \<circ> fst) (onSubmit DEFAULT_STEPS draw_zero st_first) =
     Some [AdvanceStep 1, CloseMap] \<and>
   map_option (timers \<circ> reset (Some True) \<circ> fst) (onSubmit DEFAULT_STEPS draw_zero st_first) =
     Some [AdvanceStep 1] \<and>
   map_option (stepIndex \<circ> saved \<circ> reset (Some True) \<circ> fst)
     (onSubmit DEFAULT_STEPS draw_zero st_first) = Some 0 \<and>
   map_option (stepIndex \<circ> saved)
     (Option.bind (map_option (reset (Some True) \<circ> fst) (onSubmit DEFAULT_STEPS draw_zero st_first))
        (fire (AdvanceStep 1))) = Some 1 \<and>
   map_option (stepIndex \<circ> saved \<circ> jumpTo DEFAULT_STEPS 5 \<circ> fst)
     (onSubmit DEFAULT_STEPS draw_zero st_first) = Some 5 \<and>
   map_option (stepIndex \<circ> saved)
     (Option.bind (map_option (jumpTo DEFAULT_STEPS 5 \<circ> fst) (onSubmit DEFAULT_STEPS draw_zero st_first))
        (fire (AdvanceStep 1))) = Some 1"
  by code_simp

subsection \<open>C6: zoneGroup\<close>

text \<open>
  C6, as amended. Every id of \<open>ZONES\<close> classifies to \<open>up\<close>, \<open>down\<close> or \<open>out\<close>. The
  group is \<open>unknown\<close> exactly for a missing id (\<open>undefined\<close>, \<open>null\<close>) and for the
  empty string. A non-empty id that is not in \<open>ZONES\<close> classifies to \<open>up\<close> when it
  starts with \<open>up_\<close> and to \<open>down\<close> otherwise.
\<close>

theorem zoneGroup_classification:
  "(z \<in> fst ` set ZONES \<longrightarrow> zoneGroup (Some z) \<in> {''up'', ''down'', ''out''}) \<and>
   (zoneGroup zoneId = ''unknown'' \<longleftrightarrow> zoneId = None \<or> zoneId = Some '''') \<and>
   (u \<notin> fst ` set ZONES \<longrightarrow> u \<noteq> '''' \<longrightarrow>
      zoneGroup (Some u) = (if take 3 u = ''up_'' then ''up'' else ''down''))"
  using ZONES_keys_nonempty[of z] zoneGroup_nonempty[of z] zoneGroup_unknown_iff[of zoneId]
    zoneGroup_outside_ZONES[of u]
  by blast

text \<open>The theorem at the kitchen, at a missing id and at an id that is not in
  \<open>ZONES\<close>.\<close>

theorem zoneGroup_classification_witness:
  "''kitchen'' \<in> fst ` set ZONES \<and> zoneGroup (Some ''kitchen'') \<in> {''up'', ''down'', ''out''} \<and>
   zoneGroup None = ''unknown'' \<and>
   ''garage'' \<notin> fst ` set ZONES \<and> ''garage'' \<noteq> '''' \<and> zoneGroup (Some ''garage'') = ''down''"
  using zoneGroup_classification[of "''kitchen''" None "''garage''"]
  by (simp add: ZONES_def)

text \<open>The claim as stated fails at an id that \<open>ZONES\<close> does not define.\<close>

theorem zoneGroup_unrecognized_counterexample:
  "''garage'' \<notin> fst ` set ZONES \<and> zoneGroup (Some ''garage'') = ''down'' \<and>
   zoneGroup (Some ''garage'') \<noteq> ''unknown''"
  by (simp add: ZONES_def zoneGroup_def)

subsection \<open>C7: submitting on the last step\<close>

text \<open>
  C7. When \<open>stepIndex\<close> is the last index, \<open>onSubmit\<close> returns the state it was given,
  whatever text is typed: the step index, the shake flag and the pending timers are
  unchanged and nothing is compared. The only calls of \<open>speak\<close> are those of
  \<open>whisper\<close>: one of its variants when narration is unlocked, none otherwise.
\<close>

theorem onSubmit_terminal:
  assumes "steps \<noteq> []" "stepIndex (saved st) = int (length steps) - 1"
  shows "onSubmit steps rnd st =
           Some (st, if unlockedAudio (saved st)
                     then [Speak (pick (variants (last steps)) rnd)] else [])"
proof -
  have n: "0 < int (length steps)" using assms(1) by (cases steps) simp_all
  have l: "isLast steps st" using assms(2) by (simp add: isLast_def)
  have "nat (int (length steps) - 1) = length steps - 1" by simp
  then have "step steps st = Some (last steps)"
    using assms n by (simp add: step_def js_index_def last_conv_nth)
  then show ?thesis using l by (simp add: onSubmit_def whisper_def)
qed

text \<open>The theorem on the last step of \<open>DEFAULT_STEPS\<close> with a wrong word typed.\<close>

theorem onSubmit_terminal_witness:
  "DEFAULT_STEPS \<noteq> [] \<and> stepIndex (saved st_end) = int (length DEFAULT_STEPS) - 1 \<and>
   onSubmit DEFAULT_STEPS draw_half st_end =
     Some (st_end, [Speak ''Type the code word. The house is listening.''])"
  using onSubmit_terminal[of DEFAULT_STEPS st_end draw_half]
  by (simp add: DEFAULT_STEPS_def st_end_def initial_state_def variants_def pick_def
      draw_half_def)

subsection \<open>C8: reset and jumpTo\<close>

text \<open>
  C8. A confirmed \<open>reset\<close> sets \<open>stepIndex\<close> to 0 and leaves \<open>unlockedAudio\<close> as it
  was; \<open>jumpTo k\<close>, for every integer \<open>k\<close>, sets \<open>stepIndex\<close> to \<open>k\<close> clamped to
  \<open>0 .. stepCount - 1\<close> and leaves \<open>unlockedAudio\<close> as it was.
\<close>

theorem reset_jumpTo_stepIndex:
  "(confirm \<noteq> Some False \<longrightarrow>
      stepIndex (saved (reset confirm st)) = 0 \<and>
      unlockedAudio (saved (reset confirm st)) = unlockedAudio (saved st)) \<and>
   stepIndex (saved (jumpTo steps k st)) = max 0 (min k (int (length steps) - 1)) \<and>
   unlockedAudio (saved (jumpTo steps k st)) = unlockedAudio (saved st)"
  by (simp add: reset_def jumpTo_def overlay_effect_def)

text \<open>The theorem in the middle of the hunt, with a jump past the end.\<close>

theorem reset_jumpTo_stepIndex_witness:
  "stepIndex (saved (reset (Some True) st_mid)) = 0 \<and>
   unlockedAudio (saved (reset (Some True) st_mid)) \<and>
   stepIndex (saved (jumpTo DEFAULT_STEPS 40 st_mid)) = 17 \<and>
   unlockedAudio (saved (jumpTo DEFAULT_STEPS 40 st_mid))"
  using reset_jumpTo_stepIndex[of "Some True" st_mid DEFAULT_STEPS 40]
  by (simp add: DEFAULT_STEPS_def st_mid_def initial_state_def)

subsection \<open>C9: a stored index past the end\<close>

text \<open>
  C9, as amended. For a non-empty hunt and every stored index that is a non-negative
  integer, also one past the end, the current step is defined: it is the step at
  \<open>min stepIndex (stepCount - 1)\<close>, an index inside the hunt.
\<close>

theorem step_clamped:
  assumes "steps \<noteq> []" "0 \<le> stepIndex (saved st)"
  shows "step steps st =
           Some (steps ! nat (min (stepIndex (saved st)) (int (length steps) - 1))) \<and>
         nat (min (stepIndex (saved st)) (int (length steps) - 1)) < length steps"
proof -
  have "0 < int (length steps)" using assms(1) by (cases steps) simp_all
  then have "nat (min (stepIndex (saved st)) (int (length steps) - 1)) < length steps"
    by linarith
  with step_defined[OF assms] show ?thesis by simp
qed

text \<open>The theorem at the stored index 999 against a hunt of five steps.\<close>

theorem step_clamped_witness:
  "take 5 DEFAULT_STEPS \<noteq> [] \<and> 0 \<le> stepIndex (saved st_stale) \<and>
   length (take 5 DEFAULT_STEPS) = 5 \<and>
   step (take 5 DEFAULT_STEPS) st_stale = Some (DEFAULT_STEPS ! 4)"
  using step_clamped[of "take 5 DEFAULT_STEPS" st_stale]
  by (simp add: DEFAULT_STEPS_def st_stale_def initial_state_def)

text \<open>The claim as stated fails at the stored index -1: only the upper end is
  clamped, \<open>steps[-1]\<close> is \<open>undefined\<close> and reading its title raises.\<close>

theorem step_negative_counterexample:
  "step DEFAULT_STEPS (initial_state \<lparr>stepIndex = - 1, unlockedAudio = False\<rparr>) = None"
  by (simp add: step_def js_index_def initial_state_def)

subsection \<open>C10: normalize on values that are not text\<close>

text \<open>
  C10. For \<open>null\<close>, \<open>undefined\<close> and the empty string \<open>normalize\<close> returns the empty
  string: the argument goes through \<open>(s || "").toString()\<close> before anything else.
\<close>

theorem normalize_falsy:
  "normalize_str JNull = '''' \<and> normalize_str JUndefined = '''' \<and> normalize_str (JString '''') = ''''"
  by (simp add: normalize_str_def trim_def toLowerCase_def strip_other_def)

end
